theory Spec2Isabelle
  imports Main "HOL-Library.Word" "HOL-Library.Sublist" "HOL-Library.Multiset"
begin

section \<open>Strings\<close>

text \<open>
  A JavaScript string is a sequence of UTF-16 code units. The literals of
  \<^verbatim>\<open>tool-selection.ts\<close> are ASCII; \<open>lit\<close> embeds them.
\<close>

type_synonym codeunit = "16 word"
type_synonym jstring = "codeunit list"

definition lit :: "string \<Rightarrow> jstring" where
  "lit s = map of_char s"

text \<open>
  The characters matched by \<^verbatim>\<open>\s\<close> in a regular expression and removed by
  \<^verbatim>\<open>String.prototype.trim\<close>: the ECMAScript WhiteSpace and LineTerminator
  code points.
\<close>

definition isWhiteSpace :: "codeunit \<Rightarrow> bool" where
  "isWhiteSpace c =
     (c = 0x09 \<or> c = 0x0A \<or> c = 0x0B \<or> c = 0x0C \<or> c = 0x0D \<or> c = 0x20
      \<or> c = 0xA0 \<or> c = 0x1680 \<or> (0x2000 \<le> c \<and> c \<le> 0x200A)
      \<or> c = 0x2028 \<or> c = 0x2029 \<or> c = 0x202F \<or> c = 0x205F
      \<or> c = 0x3000 \<or> c = 0xFEFF)"

definition trim :: "jstring \<Rightarrow> jstring" where
  "trim s = rev (dropWhile isWhiteSpace (rev (dropWhile isWhiteSpace s)))"

text \<open>
  \<^verbatim>\<open>s.split(/\s+/)\<close>: the string is cut at every maximal run of white space.
  A run at the very start or end leaves an empty piece there, and the empty
  string gives the one-element array \<^verbatim>\<open>[""]\<close>. The first argument collects
  the current piece in reverse.
\<close>

function split_ws :: "jstring \<Rightarrow> jstring \<Rightarrow> jstring list" where
  "split_ws cur [] = [rev cur]"
| "split_ws cur (c # cs) =
     (if isWhiteSpace c then rev cur # split_ws [] (dropWhile isWhiteSpace cs)
      else split_ws (c # cur) cs)"
  by pat_completeness auto
termination
  by (relation "measure (\<lambda>(cur, s). length s)")
     (auto simp: length_dropWhile_le less_Suc_eq_le)

text \<open>\<^verbatim>\<open>Array.prototype.join\<close> on an array of strings.\<close>

fun join :: "jstring \<Rightarrow> jstring list \<Rightarrow> jstring" where
  "join sep [] = []"
| "join sep [x] = x"
| "join sep (x # y # ys) = x @ sep @ join sep (y # ys)"

section \<open>Arrays\<close>

text \<open>
  \<^verbatim>\<open>Array.prototype.slice(start, end)\<close> for integer arguments: a negative index
  counts from the end, and both indices are clamped to the array.
  \<^verbatim>\<open>slice(start)\<close> is \<^verbatim>\<open>slice(start, length)\<close>. In JavaScript \<^verbatim>\<open>-0\<close> is
  \<^verbatim>\<open>0\<close> as an index, as it is here.
\<close>

definition slice :: "int \<Rightarrow> int \<Rightarrow> 'a list \<Rightarrow> 'a list" where
  "slice start fin xs =
     (let len = int (length xs);
          k = (if start < 0 then max (len + start) 0 else min start len);
          final = (if fin < 0 then max (len + fin) 0 else min fin len)
      in take (nat (final - k)) (drop (nat k) xs))"

definition slice_from :: "int \<Rightarrow> 'a list \<Rightarrow> 'a list" where
  "slice_from start xs = slice start (int (length xs)) xs"

text \<open>
  \<^verbatim>\<open>xs.splice(0, n)\<close>: the removed elements and the array that remains.
\<close>

definition splice0 :: "int \<Rightarrow> 'a list \<Rightarrow> 'a list \<times> 'a list" where
  "splice0 n xs =
     (let deleteCount = nat (min (max n 0) (int (length xs)))
      in (take deleteCount xs, drop deleteCount xs))"

section \<open>Types and interfaces\<close>

datatype Role = System | User | Assistant

record MessageRecord =
  msg_id :: jstring
  role :: Role
  content :: jstring
  createdAt :: nat

record ThreadState =
  thread_id :: jstring
  messages :: "MessageRecord list"
  summary :: jstring
  lastUpdated :: nat

datatype BaseMessage =
  SystemMessage jstring
| HumanMessage jstring
| AIMessage jstring

fun message_content :: "BaseMessage \<Rightarrow> jstring" where
  "message_content (SystemMessage c) = c"
| "message_content (HumanMessage c) = c"
| "message_content (AIMessage c) = c"

text \<open>
  The errors an operation can throw: \<open>NotFound\<close> is the \<^verbatim>\<open>Error\<close> of
  \<^verbatim>\<open>requireThread\<close> (it carries the thread id of its message);
  \<open>CompletionFailure\<close> is whatever \<^verbatim>\<open>model.invoke\<close> throws.
\<close>

datatype error = NotFound jstring | CompletionFailure jstring

subsection \<open>MemoryStorage\<close>

text \<open>
  \<^verbatim>\<open>MemoryStorage.store\<close> is a \<^verbatim>\<open>Map\<close> from thread ids to \<^verbatim>\<open>ThreadState\<close>
  objects. \<^verbatim>\<open>getThread\<close> hands out the stored object itself, not a copy, so
  what a caller writes into it is written into the storage at once. The
  model keeps the objects in a heap, indexed by reference, and the
  \<^verbatim>\<open>Map\<close> holds references; \<open>allocated\<close> is the next free reference.
\<close>

type_synonym ref = nat

record MemoryStorage =
  objects :: "ref \<Rightarrow> ThreadState"
  allocated :: ref
  store :: "jstring \<rightharpoonup> ref"

definition getThread :: "MemoryStorage \<Rightarrow> jstring \<Rightarrow> ref option" where
  "getThread s tid = store s tid"

definition saveThread :: "MemoryStorage \<Rightarrow> ref \<Rightarrow> MemoryStorage" where
  "saveThread s r = s\<lparr>store := (store s)(thread_id (objects s r) \<mapsto> r)\<rparr>"

text \<open>The thread state a thread id stands for, when there is one.\<close>

definition thread_of :: "MemoryStorage \<Rightarrow> jstring \<Rightarrow> ThreadState option" where
  "thread_of s tid = map_option (objects s) (getThread s tid)"

section \<open>Utilities\<close>

text \<open>
  \<^verbatim>\<open>estimateTokens\<close>: the number of pieces of the trimmed text, times 1.3,
  rounded, and at least 1. \<^verbatim>\<open>Math.round\<close> rounds to the nearest integer, a
  half upwards; on \<open>words * 1.3\<close> that is \<open>(13 * words + 5) div 10\<close>, in
  double precision too for every length a string can have (the products at
  a half are computed exactly, and no other product is within 0.1 of one).
\<close>

definition estimateTokens :: "jstring \<Rightarrow> int" where
  "estimateTokens t =
     (let words = int (length (split_ws [] (trim t)))
      in max 1 ((13 * words + 5) div 10))"

fun toBaseMessage :: "MessageRecord \<Rightarrow> BaseMessage" where
  "toBaseMessage m =
     (if role m = User then HumanMessage (content m)
      else if role m = Assistant then AIMessage (content m)
      else SystemMessage (content m))"

text \<open>\<^verbatim>\<open>m.role.toUpperCase()\<close> on the three values of \<open>Role\<close>.\<close>

fun role_toUpperCase :: "Role \<Rightarrow> jstring" where
  "role_toUpperCase System = lit ''SYSTEM''"
| "role_toUpperCase User = lit ''USER''"
| "role_toUpperCase Assistant = lit ''ASSISTANT''"

section \<open>ConversationManager\<close>

text \<open>
  The fields of the class, after the constructor has filled in the
  defaults. The storage is passed to every operation and returned by the
  ones that write. \<open>model\<close> is \<^verbatim>\<open>model.invoke\<close>: the completion service's
  answer to a prompt, or the error it throws.
\<close>

record ConversationManager =
  model :: "BaseMessage list \<Rightarrow> error + jstring"
  maxPromptTokens :: int
  compressAfterTokens :: int
  keepRecent :: int
  systemPrompt :: jstring

record ConversationManagerOptions =
  opt_model :: "BaseMessage list \<Rightarrow> error + jstring"
  opt_maxPromptTokens :: "int option"
  opt_compressAfterTokens :: "int option"
  opt_keepRecent :: "int option"
  opt_systemPrompt :: "jstring option"

definition constructor :: "ConversationManagerOptions \<Rightarrow> ConversationManager" where
  "constructor opts =
     \<lparr>model = opt_model opts,
      maxPromptTokens = (case opt_maxPromptTokens opts of Some v \<Rightarrow> v | None \<Rightarrow> 6000),
      compressAfterTokens = (case opt_compressAfterTokens opts of Some v \<Rightarrow> v | None \<Rightarrow> 4000),
      keepRecent = (case opt_keepRecent opts of Some v \<Rightarrow> v | None \<Rightarrow> 8),
      systemPrompt = (case opt_systemPrompt opts of Some v \<Rightarrow> v
        | None \<Rightarrow> lit ''You are a helpful, concise assistant. Use the `Thread Summary` for long-term context.'')\<rparr>"

definition requireThread :: "MemoryStorage \<Rightarrow> jstring \<Rightarrow> error + ref" where
  "requireThread s tid =
     (case getThread s tid of None \<Rightarrow> Inl (NotFound tid) | Some r \<Rightarrow> Inr r)"

text \<open>
  \<^verbatim>\<open>initThread\<close>. \<open>fresh\<close> is what \<^verbatim>\<open>uuid()\<close> returns if it is called and \<open>now\<close>
  what \<^verbatim>\<open>Date.now()\<close> returns: both are read from the environment.
\<close>

definition initThread ::
  "MemoryStorage \<Rightarrow> jstring option \<Rightarrow> jstring \<Rightarrow> nat \<Rightarrow> jstring \<times> MemoryStorage" where
  "initThread s threadId fresh now =
     (let tid = (case threadId of Some t \<Rightarrow> t | None \<Rightarrow> fresh)
      in case getThread s tid of
           Some existing \<Rightarrow> (tid, s)
         | None \<Rightarrow>
             (let r = allocated s;
                  state = \<lparr>thread_id = tid, messages = [], summary = [], lastUpdated = now\<rparr>;
                  s1 = s\<lparr>objects := (objects s)(r := state), allocated := Suc r\<rparr>
              in (tid, saveThread s1 r)))"

text \<open>
  The two appends. \<open>uid\<close> is the value of \<^verbatim>\<open>uuid()\<close>, \<open>t1\<close> and \<open>t2\<close> are
  those of the two calls of \<^verbatim>\<open>Date.now()\<close>. The \<^verbatim>\<open>push\<close> and the assignment
  write into the stored object.
\<close>

definition addUserMessage ::
  "MemoryStorage \<Rightarrow> jstring \<Rightarrow> jstring \<Rightarrow> jstring \<Rightarrow> nat \<Rightarrow> nat
     \<Rightarrow> (error + unit) \<times> MemoryStorage" where
  "addUserMessage s tid text uid t1 t2 =
     (case requireThread s tid of
        Inl e \<Rightarrow> (Inl e, s)
      | Inr r \<Rightarrow>
          (let state = objects s r;
               state1 = state\<lparr>messages := messages state @
                 [\<lparr>msg_id = uid, role = User, content = text, createdAt = t1\<rparr>]\<rparr>;
               state2 = state1\<lparr>lastUpdated := t2\<rparr>;
               s1 = s\<lparr>objects := (objects s)(r := state2)\<rparr>
           in (Inr (), saveThread s1 r)))"

definition addAssistantMessage ::
  "MemoryStorage \<Rightarrow> jstring \<Rightarrow> jstring \<Rightarrow> jstring \<Rightarrow> nat \<Rightarrow> nat
     \<Rightarrow> (error + unit) \<times> MemoryStorage" where
  "addAssistantMessage s tid text uid t1 t2 =
     (case requireThread s tid of
        Inl e \<Rightarrow> (Inl e, s)
      | Inr r \<Rightarrow>
          (let state = objects s r;
               state1 = state\<lparr>messages := messages state @
                 [\<lparr>msg_id = uid, role = Assistant, content = text, createdAt = t1\<rparr>]\<rparr>;
               state2 = state1\<lparr>lastUpdated := t2\<rparr>;
               s1 = s\<lparr>objects := (objects s)(r := state2)\<rparr>
           in (Inr (), saveThread s1 r)))"

subsection \<open>buildContext\<close>

definition header_content :: "ConversationManager \<Rightarrow> ThreadState \<Rightarrow> jstring" where
  "header_content cm state =
     systemPrompt cm
     @ lit ''\<newline>\<newline>---\<newline>Thread Summary (compressed):\<newline>''
     @ (if summary state = [] then lit ''(none yet)'' else summary state)"

text \<open>
  The first loop: the recent messages, forwards, each pushed onto
  \<open>selected\<close> until one does not leave a positive budget.
\<close>

fun include_recent ::
  "int \<Rightarrow> MessageRecord list \<Rightarrow> MessageRecord list \<Rightarrow> int \<times> MessageRecord list" where
  "include_recent tokenBudget selected [] = (tokenBudget, selected)"
| "include_recent tokenBudget selected (m # ms) =
     (let t = estimateTokens (content m) + 5
      in if tokenBudget - t \<le> 0 then (tokenBudget, selected)
         else include_recent (tokenBudget - t) (selected @ [m]) ms)"

text \<open>
  The second loop: the older messages, newest first, each put in front of
  \<open>selected\<close> (\<^verbatim>\<open>unshift\<close>) under the same test.
\<close>

fun pull_older ::
  "int \<Rightarrow> MessageRecord list \<Rightarrow> MessageRecord list \<Rightarrow> int \<times> MessageRecord list" where
  "pull_older tokenBudget selected [] = (tokenBudget, selected)"
| "pull_older tokenBudget selected (m # ms) =
     (let t = estimateTokens (content m) + 5
      in if tokenBudget - t \<le> 0 then (tokenBudget, selected)
         else pull_older (tokenBudget - t) (m # selected) ms)"

definition select_messages :: "ConversationManager \<Rightarrow> ThreadState \<Rightarrow> MessageRecord list" where
  "select_messages cm state =
     (let msgs = messages state;
          recent = slice_from (- keepRecent cm) msgs;
          tokenBudget = maxPromptTokens cm - estimateTokens (header_content cm state);
          (tokenBudget1, selected1) = include_recent tokenBudget [] recent;
          older = rev (slice 0 (max 0 (int (length msgs) - keepRecent cm)) msgs);
          (tokenBudget2, selected2) = pull_older tokenBudget1 selected1 older
      in selected2)"

definition buildContext ::
  "ConversationManager \<Rightarrow> MemoryStorage \<Rightarrow> jstring \<Rightarrow> error + BaseMessage list" where
  "buildContext cm s tid =
     (case requireThread s tid of
        Inl e \<Rightarrow> Inl e
      | Inr r \<Rightarrow>
          (let state = objects s r;
               header = SystemMessage (header_content cm state)
           in Inr (header # map toBaseMessage (select_messages cm state))))"

subsection \<open>maybeCompress\<close>

definition compressionPrompt :: "jstring \<Rightarrow> MessageRecord list \<Rightarrow> BaseMessage list" where
  "compressionPrompt old_summary chunk =
     [SystemMessage (lit ''Summarize the following chat messages into a concise, factual running summary. Keep entities, decisions, and any explicit constraints. Use bullet points.''),
      HumanMessage
        (lit ''Existing summary (may be empty):\<newline>'' @ old_summary
         @ lit ''\<newline>\<newline>Messages to compress:\<newline>''
         @ join (lit ''\<newline>'')
             (map (\<lambda>m. role_toUpperCase (role m) @ lit '': '' @ content m) chunk)
         @ lit ''\<newline>\<newline>Return only the updated summary.'')]"

text \<open>
  \<^verbatim>\<open>maybeCompress\<close>, statement by statement. The \<^verbatim>\<open>splice\<close> writes into the
  stored object (\<open>s1\<close>) before the completion service is called; when that
  call throws, the operation ends there, with \<open>s1\<close> as the storage.
\<close>

definition maybeCompress ::
  "ConversationManager \<Rightarrow> MemoryStorage \<Rightarrow> jstring \<Rightarrow> nat \<Rightarrow> (error + unit) \<times> MemoryStorage" where
  "maybeCompress cm s tid now =
     (case requireThread s tid of
        Inl e \<Rightarrow> (Inl e, s)
      | Inr r \<Rightarrow>
          (let state = objects s r;
               totalTokens = estimateTokens (join (lit '' \<newline>'') (map content (messages state)))
           in if totalTokens < compressAfterTokens cm then (Inr (), s)
              else
                (let n = max 6 (int (length (messages state)) div 4);
                     (chunk, rest) = splice0 n (messages state);
                     state1 = state\<lparr>messages := rest\<rparr>;
                     s1 = s\<lparr>objects := (objects s)(r := state1)\<rparr>
                 in case model cm (compressionPrompt (summary state1) chunk) of
                      Inl e \<Rightarrow> (Inl e, s1)
                    | Inr res \<Rightarrow>
                        (let state2 = state1\<lparr>summary := trim res\<rparr>;
                             state3 = state2\<lparr>lastUpdated := now\<rparr>;
                             s2 = s1\<lparr>objects := (objects s1)(r := state3)\<rparr>
                         in (Inr (), saveThread s2 r)))))"

subsection \<open>generate and getThreadView\<close>

text \<open>What one call of \<^verbatim>\<open>generate\<close> reads from \<^verbatim>\<open>uuid()\<close> and \<^verbatim>\<open>Date.now()\<close>.\<close>

record Environment =
  user_uuid :: jstring
  user_createdAt :: nat
  user_lastUpdated :: nat
  compress_lastUpdated :: nat
  assistant_uuid :: jstring
  assistant_createdAt :: nat
  assistant_lastUpdated :: nat

definition generate ::
  "ConversationManager \<Rightarrow> MemoryStorage \<Rightarrow> jstring \<Rightarrow> jstring \<Rightarrow> Environment
     \<Rightarrow> (error + jstring) \<times> MemoryStorage" where
  "generate cm s tid userInput env =
     (case addUserMessage s tid userInput (user_uuid env) (user_createdAt env) (user_lastUpdated env) of
        (Inl e, s1) \<Rightarrow> (Inl e, s1)
      | (Inr u1, s1) \<Rightarrow>
          (case maybeCompress cm s1 tid (compress_lastUpdated env) of
             (Inl e, s2) \<Rightarrow> (Inl e, s2)
           | (Inr u2, s2) \<Rightarrow>
               (case buildContext cm s2 tid of
                  Inl e \<Rightarrow> (Inl e, s2)
                | Inr context \<Rightarrow>
                    (case model cm context of
                       Inl e \<Rightarrow> (Inl e, s2)
                     | Inr text \<Rightarrow>
                         (case addAssistantMessage s2 tid text (assistant_uuid env)
                                 (assistant_createdAt env) (assistant_lastUpdated env) of
                            (Inl e, s3) \<Rightarrow> (Inl e, s3)
                          | (Inr u3, s3) \<Rightarrow> (Inr text, s3))))))"

definition getThreadView ::
  "MemoryStorage \<Rightarrow> jstring \<Rightarrow> error + (jstring \<times> MessageRecord list)" where
  "getThreadView s tid =
     (case requireThread s tid of
        Inl e \<Rightarrow> Inl e
      | Inr r \<Rightarrow> Inr (summary (objects s r), messages (objects s r)))"

section \<open>Calls that overlap\<close>

text \<open>
  Every operation is an \<^verbatim>\<open>async\<close> function, and nothing in the class keeps a
  second call on a thread waiting for the first: calls on one thread
  interleave at their \<^verbatim>\<open>await\<close>s. Between two \<^verbatim>\<open>await\<close>s a call runs alone.
  Every call on a thread id reaches the same stored object, and no
  operation other than \<^verbatim>\<open>initThread\<close> changes which object a thread id
  stands for, so the reads and writes of a call fall into the steps below.
\<close>

text \<open>
  \<^verbatim>\<open>maybeCompress\<close> up to the call of the completion service: the threshold
  test and, when it fires, the \<^verbatim>\<open>splice\<close>, with the reference of the thread
  and the prompt that is sent.
\<close>

definition maybeCompress_check ::
  "ConversationManager \<Rightarrow> MemoryStorage \<Rightarrow> jstring
     \<Rightarrow> (error + (ref \<times> BaseMessage list) option) \<times> MemoryStorage" where
  "maybeCompress_check cm s tid =
     (case requireThread s tid of
        Inl e \<Rightarrow> (Inl e, s)
      | Inr r \<Rightarrow>
          (let state = objects s r;
               totalTokens = estimateTokens (join (lit '' \<newline>'') (map content (messages state)))
           in if totalTokens < compressAfterTokens cm then (Inr None, s)
              else
                (let n = max 6 (int (length (messages state)) div 4);
                     (chunk, rest) = splice0 n (messages state);
                     state1 = state\<lparr>messages := rest\<rparr>;
                     s1 = s\<lparr>objects := (objects s)(r := state1)\<rparr>
                 in (Inr (Some (r, compressionPrompt (summary state1) chunk)), s1))))"

text \<open>
  \<^verbatim>\<open>maybeCompress\<close> after the completion service has answered: the two
  assignments to the object \<open>state\<close> refers to, as it is by then, and the
  save.
\<close>

definition maybeCompress_resume ::
  "MemoryStorage \<Rightarrow> ref \<Rightarrow> jstring \<Rightarrow> nat \<Rightarrow> MemoryStorage" where
  "maybeCompress_resume s r res now =
     (let state = objects s r;
          state2 = state\<lparr>summary := trim res\<rparr>;
          state3 = state2\<lparr>lastUpdated := now\<rparr>;
          s2 = s\<lparr>objects := (objects s)(r := state3)\<rparr>
      in saveThread s2 r)"

text \<open>
  One call \<^verbatim>\<open>generate(threadId, userInput)\<close>: its argument and what it reads
  from the environment, and how far it has come. \<open>Summarizing\<close> and
  \<open>Completing\<close> wait for the completion service, with the prompt sent.
\<close>

record Request =
  req_input :: jstring
  req_env :: Environment

datatype Progress =
    Started
  | Appended
  | Summarizing ref "BaseMessage list"
  | Compressed
  | Completing "BaseMessage list"
  | Finished "error + jstring"

text \<open>The next step of a call of \<^verbatim>\<open>generate\<close>, in the order of its body.\<close>

fun advance ::
  "ConversationManager \<Rightarrow> jstring \<Rightarrow> Request \<Rightarrow> Progress \<Rightarrow> MemoryStorage
     \<Rightarrow> Progress \<times> MemoryStorage" where
  "advance cm tid rq Started s =
     (case addUserMessage s tid (req_input rq) (user_uuid (req_env rq))
             (user_createdAt (req_env rq)) (user_lastUpdated (req_env rq)) of
        (Inl e, s1) \<Rightarrow> (Finished (Inl e), s1)
      | (Inr u, s1) \<Rightarrow> (Appended, s1))"
| "advance cm tid rq Appended s =
     (case maybeCompress_check cm s tid of
        (Inl e, s1) \<Rightarrow> (Finished (Inl e), s1)
      | (Inr None, s1) \<Rightarrow> (Compressed, s1)
      | (Inr (Some (r, prompt)), s1) \<Rightarrow> (Summarizing r prompt, s1))"
| "advance cm tid rq (Summarizing r prompt) s =
     (case model cm prompt of
        Inl e \<Rightarrow> (Finished (Inl e), s)
      | Inr res \<Rightarrow> (Compressed, maybeCompress_resume s r res (compress_lastUpdated (req_env rq))))"
| "advance cm tid rq Compressed s =
     (case buildContext cm s tid of
        Inl e \<Rightarrow> (Finished (Inl e), s)
      | Inr context \<Rightarrow> (Completing context, s))"
| "advance cm tid rq (Completing context) s =
     (case model cm context of
        Inl e \<Rightarrow> (Finished (Inl e), s)
      | Inr text \<Rightarrow>
          (case addAssistantMessage s tid text (assistant_uuid (req_env rq))
                  (assistant_createdAt (req_env rq)) (assistant_lastUpdated (req_env rq)) of
             (Inl e, s1) \<Rightarrow> (Finished (Inl e), s1)
           | (Inr u, s1) \<Rightarrow> (Finished (Inr text), s1)))"
| "advance cm tid rq (Finished res) s = (Finished res, s)"

text \<open>
  Calls on one thread id, run in the order of a schedule: each entry names
  the call that takes its next step (an entry that names no call does
  nothing).
\<close>

fun run ::
  "ConversationManager \<Rightarrow> jstring \<Rightarrow> nat list \<Rightarrow> MemoryStorage \<times> (Request \<times> Progress) list
     \<Rightarrow> MemoryStorage \<times> (Request \<times> Progress) list" where
  "run cm tid [] cfg = cfg"
| "run cm tid (i # schedule) (s, calls) =
     (if i < length calls
      then (let (rq, p) = calls ! i;
                (p', s') = advance cm tid rq p s
            in run cm tid schedule (s', calls[i := (rq, p')]))
      else run cm tid schedule (s, calls))"



section \<open>Measures the statements use\<close>

text \<open>
  The estimated cost of the messages admitted by the two loops: for each
  one the estimate of its content plus the overhead of 5 that the loops
  charge.
\<close>

definition selection_cost :: "MessageRecord list \<Rightarrow> int" where
  "selection_cost sel = sum_list (map (\<lambda>m. estimateTokens (content m) + 5) sel)"

text \<open>
  The aggregate estimated cost of an assembled context: the estimate of the
  header, and for every message after it the estimate of its content plus
  the overhead.
\<close>

fun contextCost :: "BaseMessage list \<Rightarrow> int" where
  "contextCost [] = 0"
| "contextCost (header # rest) =
     estimateTokens (message_content header)
     + sum_list (map (\<lambda>m. estimateTokens (message_content m) + 5) rest)"

text \<open>
  The total of the estimates of the messages, each message estimated on its
  own.
\<close>

definition total_estimated_tokens :: "MessageRecord list \<Rightarrow> int" where
  "total_estimated_tokens msgs = sum_list (map (\<lambda>m. estimateTokens (content m)) msgs)"







section \<open>Example values\<close>

text \<open>
  A completion service that answers every prompt, and one that fails on
  every prompt.
\<close>

definition answering_model :: "BaseMessage list \<Rightarrow> error + jstring" where
  "answering_model prompt = Inr (lit '' - goals: RAG, chat, eval '')"

definition failing_model :: "BaseMessage list \<Rightarrow> error + jstring" where
  "failing_model prompt = Inl (CompletionFailure (lit ''timeout''))"

text \<open>The manager of \<^verbatim>\<open>demo()\<close>, and variations of one option each.\<close>

definition demo_manager :: ConversationManager where
  "demo_manager =
     constructor
       \<lparr>opt_model = answering_model, opt_maxPromptTokens = Some 6000,
        opt_compressAfterTokens = Some 4000, opt_keepRecent = Some 8,
        opt_systemPrompt = Some (lit ''You are a senior AI engineering copilot. Be terse, accurate, and cite steps when useful.'')\<rparr>"

definition tight_manager :: ConversationManager where
  "tight_manager = demo_manager\<lparr>maxPromptTokens := 5\<rparr>"

definition no_recent_manager :: ConversationManager where
  "no_recent_manager = demo_manager\<lparr>keepRecent := 0\<rparr>"

definition eager_manager :: ConversationManager where
  "eager_manager = demo_manager\<lparr>compressAfterTokens := 1\<rparr>"

definition eager_failing_manager :: ConversationManager where
  "eager_failing_manager = eager_manager\<lparr>model := failing_model\<rparr>"

text \<open>A thread \<open>T\<close> with one user message, a storage holding it, and empty ones.\<close>

definition hello :: MessageRecord where
  "hello = \<lparr>msg_id = lit ''k3x9'', role = User, content = lit ''hello there'', createdAt = 1000\<rparr>"

definition one_message_thread :: ThreadState where
  "one_message_thread =
     \<lparr>thread_id = lit ''T'', messages = [hello], summary = [], lastUpdated = 1000\<rparr>"

definition numbered :: "nat \<Rightarrow> MessageRecord" where
  "numbered i =
     \<lparr>msg_id = lit ''m'' @ [of_nat i], role = (if even i then Assistant else User),
      content = lit ''hello there'', createdAt = 1000 + i\<rparr>"

definition seven_message_thread :: ThreadState where
  "seven_message_thread =
     \<lparr>thread_id = lit ''S'', messages = map numbered [1, 2, 3, 4, 5, 6, 7],
      summary = [], lastUpdated = 1007\<rparr>"

definition seven_message_storage :: MemoryStorage where
  "seven_message_storage =
     \<lparr>objects = (\<lambda>r. seven_message_thread), allocated = 1, store = [lit ''S'' \<mapsto> 0]\<rparr>"

definition empty_thread :: ThreadState where
  "empty_thread = \<lparr>thread_id = lit ''T'', messages = [], summary = [], lastUpdated = 900\<rparr>"

definition one_message_storage :: MemoryStorage where
  "one_message_storage =
     \<lparr>objects = (\<lambda>r. one_message_thread), allocated = 1, store = [lit ''T'' \<mapsto> 0]\<rparr>"

definition empty_thread_storage :: MemoryStorage where
  "empty_thread_storage =
     \<lparr>objects = (\<lambda>r. empty_thread), allocated = 1, store = [lit ''T'' \<mapsto> 0]\<rparr>"

definition empty_storage :: MemoryStorage where
  "empty_storage = \<lparr>objects = (\<lambda>r. empty_thread), allocated = 0, store = Map.empty\<rparr>"

definition demo_environment :: Environment where
  "demo_environment =
     \<lparr>user_uuid = lit ''u1'', user_createdAt = 2000, user_lastUpdated = 2000,
      compress_lastUpdated = 2001, assistant_uuid = lit ''a1'',
      assistant_createdAt = 2002, assistant_lastUpdated = 2002\<rparr>"

text \<open>A thread of ten messages \<^verbatim>\<open>"a b"\<close>, and two more thresholds.\<close>

definition ab_message :: "nat \<Rightarrow> MessageRecord" where
  "ab_message i =
     \<lparr>msg_id = lit ''m'' @ [of_nat i], role = (if even i then Assistant else User),
      content = lit ''a b'', createdAt = 1000 + i\<rparr>"

definition ten_message_thread :: ThreadState where
  "ten_message_thread =
     \<lparr>thread_id = lit ''X'', messages = map ab_message [1, 2, 3, 4, 5, 6, 7, 8, 9, 10],
      summary = [], lastUpdated = 1010\<rparr>"

definition ten_message_storage :: MemoryStorage where
  "ten_message_storage =
     \<lparr>objects = (\<lambda>r. ten_message_thread), allocated = 1, store = [lit ''X'' \<mapsto> 0]\<rparr>"

definition threshold_28_manager :: ConversationManager where
  "threshold_28_manager = demo_manager\<lparr>compressAfterTokens := 28\<rparr>"

definition threshold_0_manager :: ConversationManager where
  "threshold_0_manager = demo_manager\<lparr>compressAfterTokens := 0\<rparr>"






section \<open>The token estimator\<close>

lemma estimateTokens_ge_1: "1 \<le> estimateTokens t"
  by (simp add: estimateTokens_def Let_def)

text \<open>
  Claim C9. The estimate of every text is an integer of at least 1, so it
  is never 0 for a non-empty text, and the estimate of the empty string is
  the fixed floor 1.
\<close>

theorem estimateTokens_lower_bound:
  "1 \<le> estimateTokens t \<and> estimateTokens [] = 1"
  by (simp add: estimateTokens_def Let_def trim_def)

text \<open>
  Claim C8, as the code has it. The estimate is a function of the text, and
  it is monotonic in the number of pieces the trimmed text splits into at
  white space (its words), not in the number of characters: a text with no
  more words than another has no larger estimate.
\<close>

theorem estimateTokens_monotone_in_words:
  "(s = t \<longrightarrow> estimateTokens s = estimateTokens t) \<and>
   (length (split_ws [] (trim s)) \<le> length (split_ws [] (trim t))
      \<longrightarrow> estimateTokens s \<le> estimateTokens t)"
proof -
  have "estimateTokens s \<le> estimateTokens t"
    if le: "length (split_ws [] (trim s)) \<le> length (split_ws [] (trim t))"
  proof -
    let ?a = "int (length (split_ws [] (trim s)))"
    let ?b = "int (length (split_ws [] (trim t)))"
    from le have "13 * ?a + 5 \<le> 13 * ?b + 5" by simp
    then have "(13 * ?a + 5) div 10 \<le> (13 * ?b + 5) div 10"
      by (rule zdiv_mono1) simp
    then show ?thesis
      by (simp add: estimateTokens_def Let_def)
  qed
  then show ?thesis by blast
qed

theorem estimateTokens_monotone_in_words_witness:
  "length (split_ws [] (trim (lit ''abcdefgh''))) \<le> length (split_ws [] (trim (lit ''a b c'')))
   \<and> estimateTokens (lit ''abcdefgh'') \<le> estimateTokens (lit ''a b c'')
   \<and> estimateTokens (lit ''a b c'') = estimateTokens (lit ''a b c'')"
  using estimateTokens_monotone_in_words [of "lit ''abcdefgh''" "lit ''a b c''"]
        estimateTokens_monotone_in_words [of "lit ''a b c''" "lit ''a b c''"]
  by (simp add: lit_def trim_def isWhiteSpace_def)

text \<open>
  The text \<^verbatim>\<open>"a b c"\<close> has 5 characters and the estimate 4; the longer text
  \<^verbatim>\<open>"abcdefgh"\<close> has 8 characters and the estimate 1.
\<close>

theorem estimateTokens_length_counterexample:
  "length (lit ''a b c'') \<le> length (lit ''abcdefgh'')
   \<and> \<not> estimateTokens (lit ''a b c'') \<le> estimateTokens (lit ''abcdefgh'')"
  by (simp add: estimateTokens_def lit_def trim_def isWhiteSpace_def)

section \<open>Thread lifecycle\<close>

lemma thread_of_SomeD:
  "thread_of s tid = Some state \<Longrightarrow> \<exists>r. getThread s tid = Some r \<and> objects s r = state"
  by (auto simp: thread_of_def)

text \<open>
  Claim C6. \<^verbatim>\<open>initThread\<close> with the id of a thread the storage holds returns
  that id and leaves the whole storage as it was, so the thread's messages
  and summary too; a second call with the same id does the same.
\<close>

theorem initThread_existing:
  assumes "thread_of s tid = Some state"
  shows "initThread s (Some tid) fresh1 now1 = (tid, s)
       \<and> initThread (snd (initThread s (Some tid) fresh1 now1)) (Some tid) fresh2 now2 = (tid, s)
       \<and> thread_of (snd (initThread s (Some tid) fresh1 now1)) tid = Some state"
proof -
  from assms obtain r where "getThread s tid = Some r"
    by (blast dest: thread_of_SomeD)
  with assms show ?thesis
    by (simp add: initThread_def)
qed

theorem initThread_existing_witness:
  "thread_of one_message_storage (lit ''T'') = Some one_message_thread
   \<and> initThread one_message_storage (Some (lit ''T'')) (lit ''zz'') 5000
       = (lit ''T'', one_message_storage)
   \<and> initThread (snd (initThread one_message_storage (Some (lit ''T'')) (lit ''zz'') 5000))
        (Some (lit ''T'')) (lit ''yy'') 6000 = (lit ''T'', one_message_storage)"
proof -
  have h: "thread_of one_message_storage (lit ''T'') = Some one_message_thread"
    by (simp add: thread_of_def getThread_def one_message_storage_def)
  from initThread_existing [OF h, of "lit ''zz''" 5000 "lit ''yy''" 6000] h
  show ?thesis by blast
qed

text \<open>
  Claim C7. Every operation other than \<^verbatim>\<open>initThread\<close>, called with a thread
  id the storage does not hold, fails with \<open>NotFound\<close>, and the storage it
  leaves is the storage it was given.
\<close>

theorem unknown_thread_NotFound:
  assumes "getThread s tid = None"
  shows "addUserMessage s tid text uid t1 t2 = (Inl (NotFound tid), s)
       \<and> addAssistantMessage s tid text uid t1 t2 = (Inl (NotFound tid), s)
       \<and> buildContext cm s tid = Inl (NotFound tid)
       \<and> maybeCompress cm s tid now = (Inl (NotFound tid), s)
       \<and> generate cm s tid userInput env = (Inl (NotFound tid), s)
       \<and> getThreadView s tid = Inl (NotFound tid)"
  using assms
  by (simp add: addUserMessage_def addAssistantMessage_def
        buildContext_def maybeCompress_def generate_def getThreadView_def requireThread_def)

theorem unknown_thread_NotFound_witness:
  "getThread one_message_storage (lit ''U'') = None
   \<and> addUserMessage one_message_storage (lit ''U'') (lit ''hi'') (lit ''u1'') 2000 2000
       = (Inl (NotFound (lit ''U'')), one_message_storage)
   \<and> addAssistantMessage one_message_storage (lit ''U'') (lit ''hi'') (lit ''u1'') 2000 2000
       = (Inl (NotFound (lit ''U'')), one_message_storage)
   \<and> buildContext demo_manager one_message_storage (lit ''U'') = Inl (NotFound (lit ''U''))
   \<and> maybeCompress demo_manager one_message_storage (lit ''U'') 2001
       = (Inl (NotFound (lit ''U'')), one_message_storage)
   \<and> generate demo_manager one_message_storage (lit ''U'') (lit ''hi'') demo_environment
       = (Inl (NotFound (lit ''U'')), one_message_storage)
   \<and> getThreadView one_message_storage (lit ''U'') = Inl (NotFound (lit ''U''))"
proof -
  have h: "getThread one_message_storage (lit ''U'') = None"
    by (simp add: getThread_def one_message_storage_def lit_def)
  from unknown_thread_NotFound [OF h, of "lit ''hi''" "lit ''u1''" 2000 2000 demo_manager 2001
      "lit ''hi''" demo_environment] h
  show ?thesis by simp
qed

section \<open>Context assembly\<close>

lemma thread_of_one_message_storage:
  "thread_of one_message_storage (lit ''T'') = Some one_message_thread"
  by (simp add: thread_of_def getThread_def one_message_storage_def)

lemma demo_header_cost:
  assumes "systemPrompt cm = systemPrompt demo_manager" and "summary state = []"
  shows "estimateTokens (header_content cm state) = 27"
  using assms
  by (simp add: header_content_def demo_manager_def constructor_def estimateTokens_def lit_def trim_def
        isWhiteSpace_def)

lemma hello_cost: "estimateTokens (content hello) = 3"
  by (simp add: hello_def estimateTokens_def lit_def trim_def isWhiteSpace_def)

subsection \<open>A budget that is used up admits nothing\<close>

lemma include_recent_exhausted:
  "tokenBudget \<le> 0 \<Longrightarrow> include_recent tokenBudget selected ms = (tokenBudget, selected)"
proof (cases ms)
  case Nil
  then show ?thesis by simp
next
  case (Cons m ms')
  assume "tokenBudget \<le> 0"
  moreover have "1 \<le> estimateTokens (content m)" by (rule estimateTokens_ge_1)
  ultimately show ?thesis using Cons by (simp add: Let_def)
qed

lemma pull_older_exhausted:
  "tokenBudget \<le> 0 \<Longrightarrow> pull_older tokenBudget selected ms = (tokenBudget, selected)"
proof (cases ms)
  case Nil
  then show ?thesis by simp
next
  case (Cons m ms')
  assume "tokenBudget \<le> 0"
  moreover have "1 \<le> estimateTokens (content m)" by (rule estimateTokens_ge_1)
  ultimately show ?thesis using Cons by (simp add: Let_def)
qed

text \<open>
  Claim C5. For a thread the storage holds, when \<open>maxPromptTokens\<close> is
  smaller than the estimate of the header alone, \<^verbatim>\<open>buildContext\<close> does not
  throw and returns the list of the header and nothing else.
\<close>

theorem buildContext_header_only:
  assumes "thread_of s tid = Some state"
    and "maxPromptTokens cm < estimateTokens (header_content cm state)"
  shows "buildContext cm s tid = Inr [SystemMessage (header_content cm state)]"
proof -
  from assms(1) obtain r where r: "getThread s tid = Some r" "objects s r = state"
    by (blast dest: thread_of_SomeD)
  from assms(2) have neg: "maxPromptTokens cm - estimateTokens (header_content cm state) \<le> 0"
    by simp
  have "select_messages cm state = []"
    by (simp add: select_messages_def Let_def include_recent_exhausted [OF neg]
          pull_older_exhausted [OF neg])
  with r show ?thesis
    by (simp add: buildContext_def requireThread_def Let_def)
qed

theorem buildContext_header_only_witness:
  "thread_of one_message_storage (lit ''T'') = Some one_message_thread
   \<and> maxPromptTokens tight_manager < estimateTokens (header_content tight_manager one_message_thread)
   \<and> buildContext tight_manager one_message_storage (lit ''T'')
       = Inr [SystemMessage (header_content tight_manager one_message_thread)]"
proof -
  have "estimateTokens (header_content tight_manager one_message_thread) = 27"
    by (rule demo_header_cost) (simp_all add: tight_manager_def one_message_thread_def)
  then have h2: "maxPromptTokens tight_manager
      < estimateTokens (header_content tight_manager one_message_thread)"
    by (simp add: tight_manager_def demo_manager_def constructor_def)
  from buildContext_header_only [OF thread_of_one_message_storage h2]
    thread_of_one_message_storage h2
  show ?thesis by blast
qed

subsection \<open>The budget\<close>

lemma include_recent_budget:
  "include_recent b sel ms = (b', sel') \<Longrightarrow>
     b' + selection_cost sel' = b + selection_cost sel \<and> (b' = b \<and> sel' = sel \<or> 0 < b')"
proof (induction ms arbitrary: b sel)
  case Nil
  then show ?case by simp
next
  case (Cons m ms)
  let ?t = "estimateTokens (content m) + 5"
  show ?case
  proof (cases "b - ?t \<le> 0")
    case True
    with Cons.prems show ?thesis by (simp add: Let_def)
  next
    case False
    with Cons.prems have "include_recent (b - ?t) (sel @ [m]) ms = (b', sel')"
      by (simp add: Let_def)
    from Cons.IH [OF this] False show ?thesis
      by (auto simp: selection_cost_def)
  qed
qed

lemma pull_older_budget:
  "pull_older b sel ms = (b', sel') \<Longrightarrow>
     b' + selection_cost sel' = b + selection_cost sel \<and> (b' = b \<and> sel' = sel \<or> 0 < b')"
proof (induction ms arbitrary: b sel)
  case Nil
  then show ?case by simp
next
  case (Cons m ms)
  let ?t = "estimateTokens (content m) + 5"
  show ?case
  proof (cases "b - ?t \<le> 0")
    case True
    with Cons.prems show ?thesis by (simp add: Let_def)
  next
    case False
    with Cons.prems have "pull_older (b - ?t) (m # sel) ms = (b', sel')"
      by (simp add: Let_def)
    from Cons.IH [OF this] False show ?thesis
      by (auto simp: selection_cost_def)
  qed
qed

text \<open>
  Either no message is admitted, or the header and the admitted messages
  together stay strictly below \<open>maxPromptTokens\<close>.
\<close>

lemma select_messages_cost:
  "selection_cost (select_messages cm state) = 0 \<or>
   estimateTokens (header_content cm state) + selection_cost (select_messages cm state)
     < maxPromptTokens cm"
proof -
  let ?b0 = "maxPromptTokens cm - estimateTokens (header_content cm state)"
  let ?recent = "slice_from (- keepRecent cm) (messages state)"
  let ?older = "rev (slice 0 (max 0 (int (length (messages state)) - keepRecent cm)) (messages state))"
  obtain b1 sel1 where 1: "include_recent ?b0 [] ?recent = (b1, sel1)"
    by (cases "include_recent ?b0 [] ?recent")
  obtain b2 sel2 where 2: "pull_older b1 sel1 ?older = (b2, sel2)"
    by (cases "pull_older b1 sel1 ?older")
  have sel: "select_messages cm state = sel2"
    using 1 2 by (simp add: select_messages_def Let_def)
  from include_recent_budget [OF 1]
  have i1: "b1 + selection_cost sel1 = ?b0" "b1 = ?b0 \<and> sel1 = [] \<or> 0 < b1"
    by (simp_all add: selection_cost_def)
  from pull_older_budget [OF 2]
  have i2: "b2 + selection_cost sel2 = b1 + selection_cost sel1" "b2 = b1 \<and> sel2 = sel1 \<or> 0 < b2"
    by simp_all
  from i1 i2 have "selection_cost sel2 = 0 \<or> 0 < b2"
    by (auto simp: selection_cost_def)
  with i1 i2 show ?thesis unfolding sel by auto
qed

lemma contextCost_buildContext:
  "contextCost (SystemMessage h # map toBaseMessage sel) = estimateTokens h + selection_cost sel"
proof -
  have "message_content (toBaseMessage m) = content m" for m
    by simp
  then show ?thesis
    by (simp add: selection_cost_def comp_def del: toBaseMessage.simps)
qed

text \<open>
  Claim C2, as the code has it. For a thread the storage holds and a
  configuration whose \<open>maxPromptTokens\<close> is at least the estimate of the
  header, the aggregate estimated cost of the list \<^verbatim>\<open>buildContext\<close> returns
  (the header's estimate plus, for each selected message, the estimate of
  its content plus the overhead of 5) is at most \<open>maxPromptTokens\<close>. The
  header is never dropped, so a smaller budget is exceeded by the header
  alone.
\<close>

theorem buildContext_within_budget:
  assumes "thread_of s tid = Some state"
    and "estimateTokens (header_content cm state) \<le> maxPromptTokens cm"
  shows "\<exists>ctx. buildContext cm s tid = Inr ctx \<and> contextCost ctx \<le> maxPromptTokens cm"
proof -
  from assms(1) obtain r where r: "getThread s tid = Some r" "objects s r = state"
    by (blast dest: thread_of_SomeD)
  let ?ctx = "SystemMessage (header_content cm state) # map toBaseMessage (select_messages cm state)"
  from r have "buildContext cm s tid = Inr ?ctx"
    by (simp add: buildContext_def requireThread_def Let_def)
  moreover have "contextCost ?ctx \<le> maxPromptTokens cm"
    using select_messages_cost [of cm state] assms(2)
    unfolding contextCost_buildContext by auto
  ultimately show ?thesis by blast
qed

theorem buildContext_within_budget_witness:
  "thread_of one_message_storage (lit ''T'') = Some one_message_thread
   \<and> estimateTokens (header_content demo_manager one_message_thread) \<le> maxPromptTokens demo_manager
   \<and> (\<exists>ctx. buildContext demo_manager one_message_storage (lit ''T'') = Inr ctx
         \<and> contextCost ctx \<le> maxPromptTokens demo_manager)"
proof -
  have "estimateTokens (header_content demo_manager one_message_thread) = 27"
    by (rule demo_header_cost) (simp_all add: one_message_thread_def)
  then have h2: "estimateTokens (header_content demo_manager one_message_thread)
      \<le> maxPromptTokens demo_manager"
    by (simp add: demo_manager_def constructor_def)
  from buildContext_within_budget [OF thread_of_one_message_storage h2]
    thread_of_one_message_storage h2
  show ?thesis by blast
qed

text \<open>
  With \<open>maxPromptTokens = 5\<close> the context of the thread \<open>T\<close> is the header
  alone, whose estimated cost is 27.
\<close>

theorem buildContext_budget_counterexample:
  "thread_of one_message_storage (lit ''T'') = Some one_message_thread
   \<and> buildContext tight_manager one_message_storage (lit ''T'')
       = Inr [SystemMessage (header_content tight_manager one_message_thread)]
   \<and> contextCost [SystemMessage (header_content tight_manager one_message_thread)] = 27
   \<and> maxPromptTokens tight_manager = 5
   \<and> \<not> contextCost [SystemMessage (header_content tight_manager one_message_thread)]
         \<le> maxPromptTokens tight_manager"
proof -
  have cost: "estimateTokens (header_content tight_manager one_message_thread) = 27"
    by (rule demo_header_cost) (simp_all add: tight_manager_def one_message_thread_def)
  have budget: "maxPromptTokens tight_manager = 5"
    by (simp add: tight_manager_def demo_manager_def constructor_def)
  have "select_messages tight_manager one_message_thread = []"
    by (simp add: select_messages_def Let_def cost budget include_recent_exhausted
          pull_older_exhausted)
  then have "buildContext tight_manager one_message_storage (lit ''T'')
       = Inr [SystemMessage (header_content tight_manager one_message_thread)]"
    by (simp add: buildContext_def requireThread_def getThread_def one_message_storage_def Let_def)
  then show ?thesis
    using thread_of_one_message_storage cost budget by simp
qed

subsection \<open>The order of the selected messages\<close>

lemma include_recent_take:
  "include_recent b sel ms = (b', sel') \<Longrightarrow> \<exists>k. sel' = sel @ take k ms"
proof (induction ms arbitrary: b sel)
  case Nil
  then show ?case by simp
next
  case (Cons m ms)
  let ?t = "estimateTokens (content m) + 5"
  show ?case
  proof (cases "b - ?t \<le> 0")
    case True
    with Cons.prems have "sel' = sel @ take 0 (m # ms)" by (simp add: Let_def)
    then show ?thesis ..
  next
    case False
    with Cons.prems have "include_recent (b - ?t) (sel @ [m]) ms = (b', sel')"
      by (simp add: Let_def)
    from Cons.IH [OF this] obtain k where "sel' = (sel @ [m]) @ take k ms" ..
    then have "sel' = sel @ take (Suc k) (m # ms)" by simp
    then show ?thesis ..
  qed
qed

lemma pull_older_take:
  "pull_older b sel ms = (b', sel') \<Longrightarrow> \<exists>j. sel' = rev (take j ms) @ sel"
proof (induction ms arbitrary: b sel)
  case Nil
  then show ?case by simp
next
  case (Cons m ms)
  let ?t = "estimateTokens (content m) + 5"
  show ?case
  proof (cases "b - ?t \<le> 0")
    case True
    with Cons.prems have "sel' = rev (take 0 (m # ms)) @ sel" by (simp add: Let_def)
    then show ?thesis ..
  next
    case False
    with Cons.prems have "pull_older (b - ?t) (m # sel) ms = (b', sel')"
      by (simp add: Let_def)
    from Cons.IH [OF this] obtain j where "sel' = rev (take j ms) @ (m # sel)" ..
    then have "sel' = rev (take (Suc j) (m # ms)) @ sel" by simp
    then show ?thesis ..
  qed
qed

lemma rev_take_rev: "rev (take j (rev xs)) = drop (length xs - j) xs"
  by (simp add: rev_take)

lemma recent_window:
  "0 < k \<Longrightarrow> slice_from (- k) xs = drop (length xs - nat k) xs"
  by (simp add: slice_from_def slice_def Let_def max_def nat_diff_distrib')

lemma older_window:
  "0 < k \<Longrightarrow> slice 0 (max 0 (int (length xs) - k)) xs = take (length xs - nat k) xs"
  by (auto simp: slice_def Let_def max_def min_def nat_diff_distrib')

text \<open>
  With a recent window of at least one message the two windows do not
  overlap, and what is selected is a run of consecutive messages of the
  thread, in the thread's order: the end of the older part followed by the
  start of the recent window.
\<close>

lemma select_messages_sublist:
  assumes "0 < keepRecent cm"
  shows "sublist (select_messages cm state) (messages state)"
proof -
  let ?msgs = "messages state"
  let ?p = "length ?msgs - nat (keepRecent cm)"
  let ?b0 = "maxPromptTokens cm - estimateTokens (header_content cm state)"
  obtain b1 sel1 where 1: "include_recent ?b0 [] (drop ?p ?msgs) = (b1, sel1)"
    by (cases "include_recent ?b0 [] (drop ?p ?msgs)")
  obtain b2 sel2 where 2: "pull_older b1 sel1 (rev (take ?p ?msgs)) = (b2, sel2)"
    by (cases "pull_older b1 sel1 (rev (take ?p ?msgs))")
  have sel: "select_messages cm state = sel2"
    using 1 2 assms by (simp add: select_messages_def Let_def recent_window older_window)
  from include_recent_take [OF 1] obtain k where k: "sel1 = take k (drop ?p ?msgs)"
    by auto
  from pull_older_take [OF 2] obtain j where "sel2 = rev (take j (rev (take ?p ?msgs))) @ sel1" ..
  then have sel2: "sel2 = drop (length (take ?p ?msgs) - j) (take ?p ?msgs) @ take k (drop ?p ?msgs)"
    using k by (simp only: rev_take_rev)
  let ?q = "length (take ?p ?msgs) - j"
  have "?msgs = take ?p ?msgs @ drop ?p ?msgs" by simp
  also have "take ?p ?msgs = take ?q (take ?p ?msgs) @ drop ?q (take ?p ?msgs)"
    by (simp only: append_take_drop_id)
  also have "drop ?p ?msgs = take k (drop ?p ?msgs) @ drop k (drop ?p ?msgs)"
    by (simp only: append_take_drop_id)
  finally have "?msgs = take ?q (take ?p ?msgs) @ sel2 @ drop k (drop ?p ?msgs)"
    unfolding sel2 by simp
  then show ?thesis unfolding sel sublist_def by blast
qed

lemma select_messages_distinct:
  assumes "0 < keepRecent cm" and "distinct (map msg_id (messages state))"
  shows "distinct (map msg_id (select_messages cm state))"
proof -
  from select_messages_sublist [OF assms(1)] obtain ps ss
    where "messages state = ps @ select_messages cm state @ ss"
    unfolding sublist_def by blast
  with assms(2) show ?thesis by simp
qed

text \<open>
  Claim C3, on the code. With \<open>keepRecent = 0\<close> the recent window
  \<^verbatim>\<open>messages.slice(-0)\<close> is the whole array, and so is the older part
  \<^verbatim>\<open>messages.slice(0, length)\<close>: every message is walked twice. On the thread
  \<open>T\<close> with the single message \<open>hello\<close> the context holds that message
  twice, so the message ids after the header are not distinct.
\<close>

theorem buildContext_no_recent_duplicates:
  "thread_of one_message_storage (lit ''T'') = Some one_message_thread
   \<and> messages one_message_thread = [hello]
   \<and> select_messages no_recent_manager one_message_thread = [hello, hello]
   \<and> buildContext no_recent_manager one_message_storage (lit ''T'')
       = Inr [SystemMessage (header_content no_recent_manager one_message_thread),
              HumanMessage (lit ''hello there''), HumanMessage (lit ''hello there'')]
   \<and> \<not> distinct (map msg_id (select_messages no_recent_manager one_message_thread))"
proof -
  have hdr: "estimateTokens (header_content no_recent_manager one_message_thread) = 27"
    by (rule demo_header_cost) (simp_all add: no_recent_manager_def one_message_thread_def)
  have sel: "select_messages no_recent_manager one_message_thread = [hello, hello]"
    unfolding select_messages_def
    by (simp add: hdr hello_cost slice_from_def slice_def Let_def)
       (simp add: no_recent_manager_def demo_manager_def constructor_def one_message_thread_def hello_cost)
  have ctx: "buildContext no_recent_manager one_message_storage (lit ''T'')
       = Inr [SystemMessage (header_content no_recent_manager one_message_thread),
              HumanMessage (lit ''hello there''), HumanMessage (lit ''hello there'')]"
    unfolding buildContext_def
    by (simp add: requireThread_def getThread_def one_message_storage_def Let_def sel)
       (simp add: hello_def)
  show ?thesis
    using thread_of_one_message_storage sel ctx
    by (simp add: one_message_thread_def)
qed

section \<open>Compaction\<close>

lemma splice0_chunk:
  "splice0 (max 6 (int (length xs) div 4)) xs
     = (take (max 6 (length xs div 4)) xs, drop (max 6 (length xs div 4)) xs)"
proof -
  have d: "int (length xs) div 4 = int (length xs div 4)"
    by (simp add: zdiv_int)
  have "max 6 (int (length xs div 4)) = int (max 6 (length xs div 4))"
    by (simp add: max_def)
  then have "splice0 (max 6 (int (length xs) div 4)) xs
      = (take (min (max 6 (length xs div 4)) (length xs)) xs,
         drop (min (max 6 (length xs div 4)) (length xs)) xs)"
    unfolding d splice0_def Let_def by (simp add: min_def)
  then show ?thesis
    by (simp add: min_def)
qed

text \<open>
  What \<^verbatim>\<open>maybeCompress\<close> does once the trigger has fired: the chunk is taken
  out of the stored thread, then the completion service decides between
  the two ends.
\<close>

lemma maybeCompress_triggered:
  assumes "getThread s tid = Some r"
    and "compressAfterTokens cm
           \<le> estimateTokens (join (lit '' \<newline>'') (map content (messages (objects s r))))"
  shows "maybeCompress cm s tid now =
     (let state = objects s r;
          n = max 6 (length (messages state) div 4);
          state1 = state\<lparr>messages := drop n (messages state)\<rparr>;
          s1 = s\<lparr>objects := (objects s)(r := state1)\<rparr>
      in case model cm (compressionPrompt (summary state) (take n (messages state))) of
           Inl e \<Rightarrow> (Inl e, s1)
         | Inr res \<Rightarrow>
             (Inr (), saveThread
                (s1\<lparr>objects := (objects s1)(r := state1\<lparr>summary := trim res, lastUpdated := now\<rparr>)\<rparr>) r))"
  using assms
  by (simp add: maybeCompress_def requireThread_def Let_def splice0_chunk not_less [symmetric]
        split: sum.splits)

lemma thread_of_saveThread:
  "getThread s tid = Some r \<Longrightarrow> thread_of (saveThread s r) tid = Some (objects s r)"
  by (simp add: thread_of_def saveThread_def getThread_def)

lemma hello_trigger:
  "estimateTokens (join (lit '' \<newline>'') (map content (messages one_message_thread))) = 3"
  by (simp add: one_message_thread_def hello_def estimateTokens_def lit_def trim_def isWhiteSpace_def)

lemma empty_trigger:
  "estimateTokens (join (lit '' \<newline>'') (map content (messages empty_thread))) = 1"
  by (simp add: empty_thread_def estimateTokens_def trim_def)

lemma thread_of_empty_thread_storage:
  "thread_of empty_thread_storage (lit ''T'') = Some empty_thread"
  by (simp add: thread_of_def getThread_def empty_thread_storage_def)

text \<open>
  Claim C4, as the code has it. When the code's test fires (the estimate of
  the contents of all messages, joined into one text, is at least
  \<open>compressAfterTokens\<close>; not the total of the estimates of the messages) and
  the summarization call returns, \<^verbatim>\<open>maybeCompress\<close> removes exactly the
  \<open>max 6 (length messages div 4)\<close> oldest messages, or all of them if there
  are fewer, and the trimmed answer becomes the summary. The length of
  \<open>messages\<close> goes down by at least 6 or to zero; it goes down strictly when
  the thread has a message at all.
\<close>

theorem maybeCompress_removes_oldest_chunk:
  assumes "thread_of s tid = Some state"
    and "compressAfterTokens cm
           \<le> estimateTokens (join (lit '' \<newline>'') (map content (messages state)))"
    and "model cm (compressionPrompt (summary state)
           (take (max 6 (length (messages state) div 4)) (messages state))) = Inr res"
  shows "\<exists>s' state'.
           maybeCompress cm s tid now = (Inr (), s')
         \<and> thread_of s' tid = Some state'
         \<and> messages state' = drop (max 6 (length (messages state) div 4)) (messages state)
         \<and> summary state' = trim res
         \<and> (length (messages state') + 6 \<le> length (messages state) \<or> messages state' = [])
         \<and> (messages state \<noteq> [] \<longrightarrow> length (messages state') < length (messages state))"
proof -
  from assms(1) obtain r where r: "getThread s tid = Some r" "objects s r = state"
    by (blast dest: thread_of_SomeD)
  let ?n = "max 6 (length (messages state) div 4)"
  let ?state' = "state\<lparr>messages := drop ?n (messages state), summary := trim res, lastUpdated := now\<rparr>"
  let ?s2 = "s\<lparr>objects := (objects s)(r := ?state')\<rparr>"
  have run: "maybeCompress cm s tid now = (Inr (), saveThread ?s2 r)"
    using maybeCompress_triggered [OF r(1), of cm now] assms(2,3) r(2)
    by (simp add: Let_def)
  have "getThread ?s2 tid = Some r"
    using r(1) by (simp add: getThread_def)
  from thread_of_saveThread [OF this]
  have after: "thread_of (saveThread ?s2 r) tid = Some ?state'"
    by simp
  have len: "length (messages ?state') + 6 \<le> length (messages state) \<or> messages ?state' = []"
    by (auto simp: max_def)
  have strict: "messages state \<noteq> [] \<longrightarrow> length (messages ?state') < length (messages state)"
    by (auto simp: max_def)
  from run after len strict show ?thesis
    by (intro exI [of _ "saveThread ?s2 r"] exI [of _ ?state']) simp
qed

theorem maybeCompress_removes_oldest_chunk_witness:
  "thread_of seven_message_storage (lit ''S'') = Some seven_message_thread
   \<and> length (messages seven_message_thread) = 7
   \<and> compressAfterTokens eager_manager
       \<le> estimateTokens (join (lit '' \<newline>'') (map content (messages seven_message_thread)))
   \<and> (\<exists>s' state'.
         maybeCompress eager_manager seven_message_storage (lit ''S'') 2001 = (Inr (), s')
       \<and> thread_of s' (lit ''S'') = Some state'
       \<and> messages state' = [numbered 7]
       \<and> summary state' = lit ''- goals: RAG, chat, eval''
       \<and> length (messages state') < length (messages seven_message_thread))"
proof -
  have th: "thread_of seven_message_storage (lit ''S'') = Some seven_message_thread"
    by (simp add: thread_of_def getThread_def seven_message_storage_def)
  have "estimateTokens (join (lit '' \<newline>'') (map content (messages seven_message_thread))) = 18"
    by (simp add: seven_message_thread_def numbered_def estimateTokens_def lit_def trim_def
          isWhiteSpace_def)
  then have t: "compressAfterTokens eager_manager
      \<le> estimateTokens (join (lit '' \<newline>'') (map content (messages seven_message_thread)))"
    by (simp add: eager_manager_def demo_manager_def constructor_def)
  have m: "model eager_manager (compressionPrompt (summary seven_message_thread)
        (take (max 6 (length (messages seven_message_thread) div 4)) (messages seven_message_thread)))
      = Inr (lit '' - goals: RAG, chat, eval '')"
    by (simp add: eager_manager_def demo_manager_def constructor_def answering_model_def)
  have tr: "trim (lit '' - goals: RAG, chat, eval '') = lit ''- goals: RAG, chat, eval''"
    by (simp add: trim_def lit_def isWhiteSpace_def)
  have ne: "length (messages seven_message_thread) = 7"
    "drop (max 6 (length (messages seven_message_thread) div 4)) (messages seven_message_thread)
       = [numbered 7]"
    by (simp_all add: seven_message_thread_def)
  from maybeCompress_removes_oldest_chunk [OF th t m, of 2001] th t ne
  show ?thesis
    unfolding tr by auto
qed

lemma maybeCompress_quiet:
  assumes "getThread s tid = Some r"
    and "estimateTokens (join (lit '' \<newline>'') (map content (messages (objects s r))))
           < compressAfterTokens cm"
  shows "maybeCompress cm s tid now = (Inr (), s)"
  using assms by (simp add: maybeCompress_def requireThread_def Let_def)

lemma ab_cost: "estimateTokens (lit ''a b'') = 3"
  by (simp add: estimateTokens_def lit_def trim_def isWhiteSpace_def)

lemma ten_total: "total_estimated_tokens (messages ten_message_thread) = 30"
  by (simp add: total_estimated_tokens_def ten_message_thread_def ab_message_def ab_cost)

lemma ten_joined:
  "estimateTokens (join (lit '' \<newline>'') (map content (messages ten_message_thread))) = 26"
  by (simp add: ten_message_thread_def ab_message_def estimateTokens_def lit_def trim_def
        isWhiteSpace_def)

text \<open>
  The claim's trigger is the total of the estimates of the messages. The
  ten messages \<^verbatim>\<open>"a b"\<close> estimate to 3 each, 30 in total, which reaches the
  threshold 28; the code estimates the joined text, 20 words, to 26, and
  \<^verbatim>\<open>maybeCompress\<close> returns with the storage as it was. On the thread with
  no message and the threshold 0 the total is 0, the trigger fires on
  either reading, the call succeeds, and the thread has as many messages
  after it as before, none.
\<close>

theorem maybeCompress_trigger_counterexample:
  "thread_of ten_message_storage (lit ''X'') = Some ten_message_thread
   \<and> total_estimated_tokens (messages ten_message_thread) = 30
   \<and> compressAfterTokens threshold_28_manager = 28
   \<and> maybeCompress threshold_28_manager ten_message_storage (lit ''X'') 2001
       = (Inr (), ten_message_storage)
   \<and> thread_of empty_thread_storage (lit ''T'') = Some empty_thread
   \<and> messages empty_thread = []
   \<and> total_estimated_tokens (messages empty_thread) = 0
   \<and> compressAfterTokens threshold_0_manager = 0
   \<and> fst (maybeCompress threshold_0_manager empty_thread_storage (lit ''T'') 2001) = Inr ()
   \<and> map_option messages
        (thread_of (snd (maybeCompress threshold_0_manager empty_thread_storage (lit ''T'') 2001))
           (lit ''T'')) = Some []"
proof -
  have th: "thread_of ten_message_storage (lit ''X'') = Some ten_message_thread"
    by (simp add: thread_of_def getThread_def ten_message_storage_def)
  have c28: "compressAfterTokens threshold_28_manager = 28"
    by (simp add: threshold_28_manager_def)
  have o10: "objects ten_message_storage 0 = ten_message_thread"
    by (simp add: ten_message_storage_def)
  have g10: "getThread ten_message_storage (lit ''X'') = Some 0"
    by (simp add: getThread_def ten_message_storage_def)
  have quiet: "maybeCompress threshold_28_manager ten_message_storage (lit ''X'') 2001
       = (Inr (), ten_message_storage)"
    by (rule maybeCompress_quiet [OF g10]) (simp add: o10 ten_joined c28)
  have g: "getThread empty_thread_storage (lit ''T'') = Some 0"
    by (simp add: getThread_def empty_thread_storage_def)
  have o: "objects empty_thread_storage 0 = empty_thread"
    by (simp add: empty_thread_storage_def)
  have c0: "compressAfterTokens threshold_0_manager = 0"
    by (simp add: threshold_0_manager_def)
  have t: "compressAfterTokens threshold_0_manager
      \<le> estimateTokens (join (lit '' \<newline>'') (map content (messages (objects empty_thread_storage 0))))"
    unfolding o empty_trigger c0 by simp
  have m: "model threshold_0_manager p = Inr (lit '' - goals: RAG, chat, eval '')" for p
    by (simp add: threshold_0_manager_def demo_manager_def constructor_def answering_model_def)
  have e: "messages empty_thread = []"
    by (simp add: empty_thread_def)
  have run: "maybeCompress threshold_0_manager empty_thread_storage (lit ''T'') 2001
      = (Inr (), saveThread (empty_thread_storage\<lparr>objects :=
           (objects empty_thread_storage)(0 := empty_thread\<lparr>messages := [],
              summary := trim (lit '' - goals: RAG, chat, eval ''), lastUpdated := 2001\<rparr>)\<rparr>) 0)"
    unfolding maybeCompress_triggered [OF g t]
    by (simp add: Let_def m o e)
  have emptied: "map_option messages
        (thread_of (snd (maybeCompress threshold_0_manager empty_thread_storage (lit ''T'') 2001))
           (lit ''T'')) = Some []"
    unfolding run
    by (simp add: thread_of_def getThread_def saveThread_def) (simp add: empty_thread_storage_def)
  have fst_ok: "fst (maybeCompress threshold_0_manager empty_thread_storage (lit ''T'') 2001) = Inr ()"
    unfolding run by simp
  have tot0: "total_estimated_tokens (messages empty_thread) = 0"
    by (simp add: total_estimated_tokens_def e)
  from th ten_total c28 quiet thread_of_empty_thread_storage e tot0 c0 fst_ok emptied
  show ?thesis by blast
qed

subsection \<open>A failing summarization call\<close>

text \<open>
  When the trigger has fired and the completion service throws, the chunk
  is already gone from the stored thread: the error reaches the caller, the
  summary is the old one, and the messages are the ones after the chunk.
\<close>

lemma maybeCompress_failure_drops_chunk:
  assumes "thread_of s tid = Some state"
    and "compressAfterTokens cm
           \<le> estimateTokens (join (lit '' \<newline>'') (map content (messages state)))"
    and "model cm (compressionPrompt (summary state)
           (take (max 6 (length (messages state) div 4)) (messages state))) = Inl e"
  shows "\<exists>s'. maybeCompress cm s tid now = (Inl e, s')
           \<and> thread_of s' tid
               = Some (state\<lparr>messages := drop (max 6 (length (messages state) div 4)) (messages state)\<rparr>)"
proof -
  from assms(1) obtain r where r: "getThread s tid = Some r" "objects s r = state"
    by (blast dest: thread_of_SomeD)
  let ?state1 = "state\<lparr>messages := drop (max 6 (length (messages state) div 4)) (messages state)\<rparr>"
  let ?s1 = "s\<lparr>objects := (objects s)(r := ?state1)\<rparr>"
  have "maybeCompress cm s tid now = (Inl e, ?s1)"
    using maybeCompress_triggered [OF r(1), of cm now] assms(2,3) r(2)
    by (simp add: Let_def)
  moreover have "thread_of ?s1 tid = Some ?state1"
    using r(1) by (simp add: thread_of_def getThread_def)
  ultimately show ?thesis by blast
qed

text \<open>
  Claim C1, on the code. The thread \<open>T\<close> holds the one message \<open>hello\<close>, the
  trigger fires and the completion service fails: \<^verbatim>\<open>maybeCompress\<close> ends with
  the failure, and the thread in the storage has no message left. The
  summary is unchanged, the message is lost.
\<close>

theorem maybeCompress_failure_loses_messages:
  "thread_of one_message_storage (lit ''T'') = Some one_message_thread
   \<and> messages one_message_thread = [hello]
   \<and> fst (maybeCompress eager_failing_manager one_message_storage (lit ''T'') 2001)
       = Inl (CompletionFailure (lit ''timeout''))
   \<and> thread_of (snd (maybeCompress eager_failing_manager one_message_storage (lit ''T'') 2001))
        (lit ''T'') = Some (one_message_thread\<lparr>messages := []\<rparr>)"
proof -
  have g: "getThread one_message_storage (lit ''T'') = Some 0"
    by (simp add: getThread_def one_message_storage_def)
  have o: "objects one_message_storage 0 = one_message_thread"
    by (simp add: one_message_storage_def)
  have t: "compressAfterTokens eager_failing_manager
      \<le> estimateTokens (join (lit '' \<newline>'') (map content (messages (objects one_message_storage 0))))"
    unfolding o hello_trigger
    by (simp add: eager_failing_manager_def eager_manager_def demo_manager_def constructor_def)
  have m: "model eager_failing_manager p = Inl (CompletionFailure (lit ''timeout''))" for p
    by (simp add: eager_failing_manager_def failing_model_def)
  have run: "maybeCompress eager_failing_manager one_message_storage (lit ''T'') 2001
      = (Inl (CompletionFailure (lit ''timeout'')),
         one_message_storage\<lparr>objects :=
           (objects one_message_storage)(0 := one_message_thread\<lparr>messages := []\<rparr>)\<rparr>)"
    unfolding maybeCompress_triggered [OF g t]
    by (simp add: Let_def m o) (simp add: one_message_thread_def)
  show ?thesis
    unfolding run
    using thread_of_one_message_storage
    by (simp add: thread_of_def getThread_def) (simp add: one_message_storage_def one_message_thread_def)
qed

section \<open>Concurrent calls\<close>

text \<open>The steps of one call, run to the end, are \<^verbatim>\<open>generate\<close>.\<close>

lemma maybeCompress_in_two:
  "maybeCompress cm s tid now =
     (case maybeCompress_check cm s tid of
        (Inl e, s1) \<Rightarrow> (Inl e, s1)
      | (Inr None, s1) \<Rightarrow> (Inr (), s1)
      | (Inr (Some (r, prompt)), s1) \<Rightarrow>
          (case model cm prompt of
             Inl e \<Rightarrow> (Inl e, s1)
           | Inr res \<Rightarrow> (Inr (), maybeCompress_resume s1 r res now)))"
  by (simp add: maybeCompress_def maybeCompress_check_def maybeCompress_resume_def Let_def
        split: sum.splits prod.splits)

lemma generate_in_steps:
  "run cm tid [0, 0, 0, 0, 0] (s, [(rq, Started)])
     = (snd (generate cm s tid (req_input rq) (req_env rq)),
        [(rq, Finished (fst (generate cm s tid (req_input rq) (req_env rq))))])"
  unfolding generate_def maybeCompress_in_two
  by (simp add: Let_def split: sum.splits prod.splits option.splits)

subsection \<open>One step on a thread the storage holds\<close>






subsection \<open>A schedule on which no compaction fires\<close>









subsection \<open>Two calls at once on the thread of six messages\<close>









end
